theory Spec2Isabelle
  imports
    Complex_Main
    "HOL-Library.Char_ord"
    "HOL-Library.List_Lexorder"
    "HOL-Library.Monad_Syntax"
    "HOL-Library.Sublist"
    "HOL-Library.Multiset"
begin

section \<open>The transaction dashboard of \<^verbatim>\<open>app.py\<close>\<close>

text \<open>
  \<^verbatim>\<open>app.py\<close> loads \<^verbatim>\<open>transactions.csv\<close> into the module-level data frame \<^verbatim>\<open>df\<close>
  (lines 20 to 27) and recomputes eight aggregate tables and a row preview in the callback
  \<^verbatim>\<open>update_graphs\<close> (lines 223 to 292). Every step is a call into pandas, so the embedding
  consists of the pandas operations the file calls, each with the behaviour of its default
  arguments, and of the two pieces of code that string them together.

  Conventions of the embedding:
  \<^item> numeric cells are reals; the sums and means of the callback are exact, the column
    arithmetic of the load is a parameter; missing (NaN) and infinite numeric cells are
    outside the model, and the one infinite bin edge of the source is a constructor of its
    own;
  \<^item> a timestamp is a calendar date; the CSV reader together with \<^verbatim>\<open>pd.to_datetime\<close> either
    parses a date cell or raises, and the raw cell records which;
  \<^item> the input of the load is what \<^verbatim>\<open>pd.read_csv\<close> delivers for a file that exists, has the
    columns of \<open>raw_row\<close>, holds numbers in its numeric columns and has no empty date cell;
    a missing file or column, text in a numeric column and an empty date cell (which loads
    as NaT) are outside the model;
  \<^item> \<^verbatim>\<open>Product_Category\<close> and the raw \<^verbatim>\<open>Location\<close> cell may be missing, as the source itself
    provides for (\<^verbatim>\<open>dropna()\<close> in lines 75 and 83, \<^verbatim>\<open>str(x)\<close> in line 24);
  \<^item> strings are ASCII;
  \<^item> a figure is represented by the table handed to \<^verbatim>\<open>px.line\<close> or \<^verbatim>\<open>px.bar\<close>.
\<close>

subsection \<open>Rows and frames\<close>

record timestamp =
  ts_year :: int
  ts_month :: nat
  ts_day :: nat

datatype date_cell = Unparsable | Parsed timestamp

text \<open>A row as \<^verbatim>\<open>pd.read_csv\<close> delivers it.\<close>

record raw_row =
  csv_Transaction_ID :: int
  csv_CustomerID :: int
  csv_Transaction_Date :: date_cell
  csv_Date :: date_cell
  csv_Product_Category :: "string option"
  csv_Product_Description :: string
  csv_Gender :: string
  csv_Location :: "string option"
  csv_Tenure_Months :: real
  csv_Quantity :: real
  csv_Avg_Price :: real
  csv_Online_Spend :: real
  csv_Offline_Spend :: real
  csv_Discount_pct :: real
  csv_Coupon_Status :: string

text \<open>A row of \<^verbatim>\<open>df\<close> after the preprocessing of lines 23 to 27.\<close>

record row =
  Transaction_ID :: int
  CustomerID :: int
  Transaction_Date :: timestamp
  Date :: timestamp
  Product_Category :: "string option"
  Product_Description :: string
  Gender :: string
  Location :: string
  Tenure_Months :: real
  Quantity :: real
  Avg_Price :: real
  Online_Spend :: real
  Offline_Spend :: real
  Discount_pct :: real
  Coupon_Status :: string
  Total_Spend :: real
  Revenue :: real

text \<open>
  A categorical column: its categories, in order, and one value per row (\<open>None\<close> is NaN).
  A frame holds the rows, the categories of the categorical column \<^verbatim>\<open>Location\<close>, and the two
  columns \<^verbatim>\<open>update_graphs\<close> adds, absent (\<open>None\<close>) until they are assigned.
\<close>

type_synonym categorical = "string list \<times> string option list"

record frame =
  rows :: "row list"
  Location_categories :: "string list"
  Tenure_Group :: "categorical option"
  Discount_Group :: "categorical option"

definition column :: "(row \<Rightarrow> 'a) \<Rightarrow> frame \<Rightarrow> 'a list" where
  "column c f = map c (rows f)"

subsection \<open>Loading (lines 20 to 27)\<close>

datatype error = ValueError

text \<open>\<^verbatim>\<open>pd.to_datetime\<close> on a column raises at the first cell it cannot parse.\<close>

fun to_datetime :: "date_cell list \<Rightarrow> error + timestamp list" where
  "to_datetime [] = Inr []"
| "to_datetime (Unparsable # cs) = Inl ValueError"
| "to_datetime (Parsed t # cs) =
     (case to_datetime cs of Inl e \<Rightarrow> Inl e | Inr ts \<Rightarrow> Inr (t # ts))"

definition ascii_uppercase :: string where
  "ascii_uppercase = ''ABCDEFGHIJKLMNOPQRSTUVWXYZ''"

definition ascii_lowercase :: string where
  "ascii_lowercase = ''abcdefghijklmnopqrstuvwxyz''"

definition upper :: "char \<Rightarrow> char" where
  "upper c = (case map_of (zip ascii_lowercase ascii_uppercase) c of Some u \<Rightarrow> u | None \<Rightarrow> c)"

definition lower :: "char \<Rightarrow> char" where
  "lower c = (case map_of (zip ascii_uppercase ascii_lowercase) c of Some l \<Rightarrow> l | None \<Rightarrow> c)"

definition is_cased :: "char \<Rightarrow> bool" where
  "is_cased c = (c \<in> set ascii_uppercase \<or> c \<in> set ascii_lowercase)"

text \<open>
  \<^verbatim>\<open>str.title\<close>: a character that follows a cased character is lower-cased, every other
  one is upper-cased.
\<close>

fun title_from :: "bool \<Rightarrow> string \<Rightarrow> string" where
  "title_from previous_is_cased [] = []"
| "title_from previous_is_cased (c # cs) =
     (if previous_is_cased then lower c else upper c) # title_from (is_cased c) cs"

definition title :: "string \<Rightarrow> string" where
  "title s = title_from False s"

text \<open>\<^verbatim>\<open>str(x)\<close> of a missing cell is \<^verbatim>\<open>'nan'\<close>.\<close>

definition str :: "string option \<Rightarrow> string" where
  "str x = (case x of None \<Rightarrow> ''nan'' | Some s \<Rightarrow> s)"

text \<open>\<^verbatim>\<open>astype('category')\<close>: the categories are the distinct values, sorted.\<close>

definition astype_category :: "string list \<Rightarrow> string list" where
  "astype_category xs = sort (remdups xs)"

text \<open>
  Lines 26 and 27 add and multiply columns. pandas does so in the dtype of the columns:
  int64 wraps around, float64 rounds. The two operations are therefore parameters of the
  load, \<open>add_op\<close> and \<open>mul_op\<close>; nothing else in lines 20 to 27 looks at the amounts.
\<close>

definition preprocess_with ::
  "(real \<Rightarrow> real \<Rightarrow> real) \<Rightarrow> (real \<Rightarrow> real \<Rightarrow> real) \<Rightarrow> raw_row \<Rightarrow> timestamp \<Rightarrow> timestamp \<Rightarrow> row" where
  "preprocess_with add_op mul_op r td d =
     \<lparr> Transaction_ID = csv_Transaction_ID r,
       CustomerID = csv_CustomerID r,
       Transaction_Date = td,
       Date = d,
       Product_Category = csv_Product_Category r,
       Product_Description = csv_Product_Description r,
       Gender = csv_Gender r,
       Location = title (str (csv_Location r)),
       Tenure_Months = csv_Tenure_Months r,
       Quantity = csv_Quantity r,
       Avg_Price = csv_Avg_Price r,
       Online_Spend = csv_Online_Spend r,
       Offline_Spend = csv_Offline_Spend r,
       Discount_pct = csv_Discount_pct r,
       Coupon_Status = csv_Coupon_Status r,
       Total_Spend = add_op (csv_Offline_Spend r) (csv_Online_Spend r),
       Revenue = mul_op (csv_Quantity r) (csv_Avg_Price r) \<rparr>"

definition load_with ::
  "(real \<Rightarrow> real \<Rightarrow> real) \<Rightarrow> (real \<Rightarrow> real \<Rightarrow> real) \<Rightarrow> raw_row list \<Rightarrow> error + frame" where
  "load_with add_op mul_op csv =
     (case to_datetime (map csv_Transaction_Date csv) of
        Inl e \<Rightarrow> Inl e
      | Inr tds \<Rightarrow>
          (case to_datetime (map csv_Date csv) of
             Inl e \<Rightarrow> Inl e
           | Inr ds \<Rightarrow>
               (let rs = map (\<lambda>(r, td, d). preprocess_with add_op mul_op r td d)
                           (zip csv (zip tds ds))
                in Inr \<lparr> rows = rs,
                         Location_categories = astype_category (map Location rs),
                         Tenure_Group = None,
                         Discount_Group = None \<rparr>)))"

text \<open>
  The operations of dtype int64, which the amount columns of a file of integers have: the
  result wraps around at 64 bits.
\<close>

definition wrap64 :: "int \<Rightarrow> int" where
  "wrap64 n = (n + 2 ^ 63) mod 2 ^ 64 - 2 ^ 63"

definition int64_add :: "real \<Rightarrow> real \<Rightarrow> real" where
  "int64_add x y = of_int (wrap64 (\<lfloor>x\<rfloor> + \<lfloor>y\<rfloor>))"

definition int64_mul :: "real \<Rightarrow> real \<Rightarrow> real" where
  "int64_mul x y = of_int (wrap64 (\<lfloor>x\<rfloor> * \<lfloor>y\<rfloor>))"

text \<open>
  The load of a file whose amounts are integers so small that neither dtype wraps or
  rounds, as in all example data below: the operations are those of the reals.
\<close>

definition load :: "raw_row list \<Rightarrow> error + frame" where
  "load csv = load_with (+) (*) csv"

subsection \<open>The pandas operations of \<^verbatim>\<open>update_graphs\<close>\<close>

text \<open>\<^verbatim>\<open>Series.isin(values)\<close>: a missing cell is in no list of strings.\<close>

definition isin :: "string option list \<Rightarrow> string list \<Rightarrow> bool list" where
  "isin col vals = map (\<lambda>v. case v of None \<Rightarrow> False | Some x \<Rightarrow> x \<in> set vals) col"

text \<open>Boolean indexing \<^verbatim>\<open>frame[mask]\<close> keeps the rows whose mask entry is true, in order.\<close>

definition keep :: "bool list \<Rightarrow> 'a list \<Rightarrow> 'a list" where
  "keep msk xs = map snd (filter fst (zip msk xs))"

definition boolean_index :: "frame \<Rightarrow> bool list \<Rightarrow> frame" where
  "boolean_index f msk =
     \<lparr> rows = keep msk (rows f),
       Location_categories = Location_categories f,
       Tenure_Group = map_option (\<lambda>(cats, vs). (cats, keep msk vs)) (Tenure_Group f),
       Discount_Group = map_option (\<lambda>(cats, vs). (cats, keep msk vs)) (Discount_Group f) \<rparr>"

text \<open>
  \<^verbatim>\<open>groupby(key)[value].agg()\<close> on a column of strings: one entry per distinct key that is
  not missing, in ascending key order (\<^verbatim>\<open>sort=True\<close>, \<^verbatim>\<open>dropna=True\<close>).
\<close>

definition group :: "string option list \<Rightarrow> 'v list \<Rightarrow> string \<Rightarrow> 'v list" where
  "group keys vals k = map snd (filter (\<lambda>(g, v). g = Some k) (zip keys vals))"

definition groupby :: "string option list \<Rightarrow> 'v list \<Rightarrow> ('v list \<Rightarrow> 'a) \<Rightarrow> (string \<times> 'a) list" where
  "groupby keys vals agg =
     map (\<lambda>k. (k, agg (group keys vals k))) (sort (remdups (List.map_filter id keys)))"

text \<open>
  \<^verbatim>\<open>groupby\<close> on a categorical column (\<^verbatim>\<open>observed=False\<close>, the default of the pandas
  versions that accept \<^verbatim>\<open>freq='M'\<close>): one entry per category, in category order, also for a
  category no row has.
\<close>

definition groupby_categorical :: "categorical \<Rightarrow> 'v list \<Rightarrow> ('v list \<Rightarrow> 'a) \<Rightarrow> (string \<times> 'a) list" where
  "groupby_categorical cat vals agg =
     map (\<lambda>k. (k, agg (group (snd cat) vals k))) (fst cat)"

text \<open>
  \<^verbatim>\<open>groupby(pd.Grouper(key, freq='M'))[value].sum()\<close> resamples: the bins are all calendar
  months from that of the earliest row to that of the latest, and the sum of a bin without
  rows is 0. A month is represented by its ordinal \<open>12 * year + month - 1\<close>.
\<close>

definition to_period_M :: "timestamp \<Rightarrow> int" where
  "to_period_M t = 12 * ts_year t + int (ts_month t) - 1"

definition groupby_Grouper_M_sum :: "timestamp list \<Rightarrow> real list \<Rightarrow> (int \<times> real) list" where
  "groupby_Grouper_M_sum ts vals =
     (let ps = map to_period_M ts
      in if ps = [] then []
         else map (\<lambda>k. (k, sum_list (map snd (filter (\<lambda>(p, v). p = k) (zip ps vals)))))
                [Min (set ps) .. Max (set ps)])"

text \<open>\<^verbatim>\<open>mean()\<close> of no values is NaN.\<close>

definition mean :: "real list \<Rightarrow> real option" where
  "mean xs = (if xs = [] then None else Some (sum_list xs / real (length xs)))"

text \<open>
  \<^verbatim>\<open>sort_values(by, ascending=False)\<close>: pandas reverses the column, sorts it ascending and
  reverses the result; on the short columns evaluated below the sort leaves equal keys in
  place.
\<close>

definition sort_values_desc :: "('k \<times> real) list \<Rightarrow> ('k \<times> real) list" where
  "sort_values_desc xs = rev (sort_key snd (rev xs))"

definition head :: "nat \<Rightarrow> 'a list \<Rightarrow> 'a list" where
  "head n xs = take n xs"

text \<open>
  \<^verbatim>\<open>pd.cut(x, bins, labels)\<close> with \<^verbatim>\<open>right=True\<close> and \<^verbatim>\<open>include_lowest=False\<close>: the index of
  the first edge that is not below \<open>x\<close> selects the label; a value at or below the first edge
  or above the last one gets none.
\<close>

datatype edge = Fin real | PosInf

fun edge_less :: "edge \<Rightarrow> real \<Rightarrow> bool" where
  "edge_less (Fin b) x = (b < x)"
| "edge_less PosInf x = False"

definition searchsorted_left :: "edge list \<Rightarrow> real \<Rightarrow> nat" where
  "searchsorted_left bins x = length (takeWhile (\<lambda>b. edge_less b x) bins)"

definition cut1 :: "edge list \<Rightarrow> string list \<Rightarrow> real \<Rightarrow> string option" where
  "cut1 bins labels x =
     (let ids = searchsorted_left bins x
      in if ids = length bins \<or> ids = 0 then None else Some (labels ! (ids - 1)))"

definition cut :: "real list \<Rightarrow> edge list \<Rightarrow> string list \<Rightarrow> categorical" where
  "cut xs bins labels = (labels, map (cut1 bins labels) xs)"

definition tenure_bins :: "edge list" where
  "tenure_bins = [Fin 0, Fin 6, Fin 12, Fin 24, Fin 36, PosInf]"

definition tenure_labels :: "string list" where
  "tenure_labels = [''0-6'', ''7-12'', ''13-24'', ''25-36'', ''36+'']"

definition discount_bins :: "edge list" where
  "discount_bins = [Fin 0, Fin 5, Fin 10, Fin 15, Fin 20, Fin 100]"

definition discount_labels :: "string list" where
  "discount_labels = [''0-5%'', ''5-10%'', ''10-15%'', ''15-20%'', ''20%+'']"


text \<open>\<^verbatim>\<open>DataFrame.head(n)\<close> and \<^verbatim>\<open>DataFrame.to_dict('records')\<close>: one entry per row, with the
  cell of every column the frame has.\<close>

definition frame_head :: "nat \<Rightarrow> frame \<Rightarrow> frame" where
  "frame_head n f =
     \<lparr> rows = take n (rows f),
       Location_categories = Location_categories f,
       Tenure_Group = map_option (\<lambda>(cats, vs). (cats, take n vs)) (Tenure_Group f),
       Discount_Group = map_option (\<lambda>(cats, vs). (cats, take n vs)) (Discount_Group f) \<rparr>"

type_synonym record_dict = "row \<times> string option option \<times> string option option"

definition cells :: "categorical option \<Rightarrow> nat \<Rightarrow> string option option list" where
  "cells col n = (case col of None \<Rightarrow> replicate n None | Some (cats, vs) \<Rightarrow> map Some vs)"

definition to_dict_records :: "frame \<Rightarrow> record_dict list" where
  "to_dict_records f =
     zip (rows f)
       (zip (cells (Tenure_Group f) (length (rows f))) (cells (Discount_Group f) (length (rows f))))"

subsection \<open>Frames as objects\<close>

text \<open>
  A variable of the program holds a reference to a frame object. The store lists the objects
  in order of creation; the module-level \<^verbatim>\<open>df\<close> is the first. \<^verbatim>\<open>copy()\<close> and boolean
  indexing create an object, an assignment to a column changes the object it is applied to.
  A result of \<open>None\<close> stands for an exception.
\<close>

type_synonym store = "frame list"

type_synonym ref = nat

definition df :: ref where
  "df = 0"

definition deref :: "store \<Rightarrow> ref \<Rightarrow> frame option" where
  "deref s a = (if a < length s then Some (s ! a) else None)"

definition alloc :: "store \<Rightarrow> frame \<Rightarrow> store \<times> ref" where
  "alloc s f = (s @ [f], length s)"

definition copy :: "store \<Rightarrow> ref \<Rightarrow> (store \<times> ref) option" where
  "copy s a = map_option (alloc s) (deref s a)"

definition getitem :: "store \<Rightarrow> ref \<Rightarrow> bool list \<Rightarrow> (store \<times> ref) option" where
  "getitem s a msk = map_option (\<lambda>f. alloc s (boolean_index f msk)) (deref s a)"

definition setitem_Tenure_Group :: "store \<Rightarrow> ref \<Rightarrow> categorical \<Rightarrow> store option" where
  "setitem_Tenure_Group s a col =
     map_option (\<lambda>f. s[a := f\<lparr>Tenure_Group := Some col\<rparr>]) (deref s a)"

definition setitem_Discount_Group :: "store \<Rightarrow> ref \<Rightarrow> categorical \<Rightarrow> store option" where
  "setitem_Discount_Group s a col =
     map_option (\<lambda>f. s[a := f\<lparr>Discount_Group := Some col\<rparr>]) (deref s a)"

subsection \<open>The callback (lines 223 to 292)\<close>

text \<open>
  The two arguments are what the dropdowns deliver: \<open>None\<close> or a list of strings. Python's
  \<^verbatim>\<open>if categories:\<close> is false for both \<open>None\<close> and the empty list.
\<close>

definition truthy :: "string list option \<Rightarrow> bool" where
  "truthy v = (case v of None \<Rightarrow> False | Some xs \<Rightarrow> xs \<noteq> [])"

definition selected :: "string list option \<Rightarrow> string list" where
  "selected v = (case v of None \<Rightarrow> [] | Some xs \<Rightarrow> xs)"

record aggregate_bundle =
  sales_trend_fig :: "(int \<times> real) list"
  category_fig :: "(string \<times> real) list"
  products_fig :: "(string \<times> real) list"
  gender_fig :: "(string \<times> real \<times> real) list"
  tenure_fig :: "(string \<times> real option) list"
  location_fig :: "(string \<times> real) list"
  coupon_fig :: "(string \<times> real option) list"
  discount_fig :: "(string \<times> real option) list"
  table_data :: "record_dict list"

definition update_graphs ::
  "store \<Rightarrow> string list option \<Rightarrow> string list option \<Rightarrow> (store \<times> aggregate_bundle) option" where
  "update_graphs s0 categories locations = do {
     (s1, filtered_df) \<leftarrow> copy s0 df;
     (s2, filtered_df) \<leftarrow>
       (if truthy categories
        then do {
          f \<leftarrow> deref s1 filtered_df;
          getitem s1 filtered_df (isin (column Product_Category f) (selected categories)) }
        else Some (s1, filtered_df));
     (s3, filtered_df) \<leftarrow>
       (if truthy locations
        then do {
          f \<leftarrow> deref s2 filtered_df;
          getitem s2 filtered_df (isin (map Some (column Location f)) (selected locations)) }
        else Some (s2, filtered_df));
     f \<leftarrow> deref s3 filtered_df;
     let monthly_sales = groupby_Grouper_M_sum (column Transaction_Date f) (column Revenue f);
     let category_revenue =
       sort_values_desc (groupby (column Product_Category f) (column Revenue f) sum_list);
     let top_products =
       head 10 (sort_values_desc
         (groupby (map Some (column Product_Description f)) (column Quantity f) sum_list));
     let gender_spending =
       groupby (map Some (column Gender f)) (zip (column Online_Spend f) (column Offline_Spend f))
         (\<lambda>vs. (sum_list (map fst vs), sum_list (map snd vs)));
     s4 \<leftarrow> setitem_Tenure_Group s3 filtered_df
            (cut (column Tenure_Months f) tenure_bins tenure_labels);
     f \<leftarrow> deref s4 filtered_df;
     tenure_group \<leftarrow> Tenure_Group f;
     let tenure_spending = groupby_categorical tenure_group (column Total_Spend f) mean;
     let location_spending =
       sort_values_desc
         (groupby_categorical (Location_categories f, map Some (column Location f))
            (column Total_Spend f) sum_list);
     let coupon_effect = groupby (map Some (column Coupon_Status f)) (column Revenue f) mean;
     s5 \<leftarrow> setitem_Discount_Group s4 filtered_df
            (cut (column Discount_pct f) discount_bins discount_labels);
     f \<leftarrow> deref s5 filtered_df;
     discount_group \<leftarrow> Discount_Group f;
     let discount_impact = groupby_categorical discount_group (column Revenue f) mean;
     let records = to_dict_records (frame_head 100 f);
     Some (s5,
       \<lparr> sales_trend_fig = monthly_sales,
         category_fig = category_revenue,
         products_fig = top_products,
         gender_fig = gender_spending,
         tenure_fig = tenure_spending,
         location_fig = location_spending,
         coupon_fig = coupon_effect,
         discount_fig = discount_impact,
         table_data = records \<rparr>)
   }"


subsection \<open>The vocabulary of the specification\<close>

text \<open>
  The specification's FilteredView: the rows whose category is among the selected categories
  (when any is selected) and whose location is among the selected locations (when any is
  selected), in table order.
\<close>

definition matches :: "string list option \<Rightarrow> string list option \<Rightarrow> row \<Rightarrow> bool" where
  "matches categories locations r =
     ((if truthy categories then Product_Category r \<in> Some ` set (selected categories) else True) \<and>
      (if truthy locations then Location r \<in> set (selected locations) else True))"

definition FilteredView :: "frame \<Rightarrow> string list option \<Rightarrow> string list option \<Rightarrow> row list" where
  "FilteredView table categories locations = filter (matches categories locations) (rows table)"

text \<open>
  The nine results as a function of the rows that passed the filter and of the location
  categories; \<open>update_graphs_eq\<close> below shows that the callback returns exactly this.
\<close>

definition aggregates :: "row list \<Rightarrow> string list \<Rightarrow> aggregate_bundle" where
  "aggregates fv cats =
     \<lparr> sales_trend_fig = groupby_Grouper_M_sum (map Transaction_Date fv) (map Revenue fv),
       category_fig =
         sort_values_desc (groupby (map Product_Category fv) (map Revenue fv) sum_list),
       products_fig =
         head 10 (sort_values_desc
           (groupby (map Some (map Product_Description fv)) (map Quantity fv) sum_list)),
       gender_fig =
         groupby (map Some (map Gender fv)) (zip (map Online_Spend fv) (map Offline_Spend fv))
           (\<lambda>vs. (sum_list (map fst vs), sum_list (map snd vs))),
       tenure_fig =
         groupby_categorical (cut (map Tenure_Months fv) tenure_bins tenure_labels)
           (map Total_Spend fv) mean,
       location_fig =
         sort_values_desc
           (groupby_categorical (cats, map Some (map Location fv)) (map Total_Spend fv) sum_list),
       coupon_fig = groupby (map Some (map Coupon_Status fv)) (map Revenue fv) mean,
       discount_fig =
         groupby_categorical (cut (map Discount_pct fv) discount_bins discount_labels)
           (map Revenue fv) mean,
       table_data =
         map (\<lambda>r. (r, Some (cut1 tenure_bins tenure_labels (Tenure_Months r)),
                       Some (cut1 discount_bins discount_labels (Discount_pct r))))
           (take 100 fv) \<rparr>"

subsection \<open>Example data\<close>

definition jan15 :: timestamp where
  "jan15 = \<lparr> ts_year = 2020, ts_month = 1, ts_day = 15 \<rparr>"

definition mar01 :: timestamp where
  "mar01 = \<lparr> ts_year = 2020, ts_month = 3, ts_day = 1 \<rparr>"

definition csv0 :: raw_row where
  "csv0 =
     \<lparr> csv_Transaction_ID = 1, csv_CustomerID = 1,
       csv_Transaction_Date = Parsed jan15, csv_Date = Parsed jan15,
       csv_Product_Category = Some ''A'', csv_Product_Description = ''Mug'',
       csv_Gender = ''F'', csv_Location = Some ''chicago'',
       csv_Tenure_Months = 12, csv_Quantity = 2, csv_Avg_Price = 5,
       csv_Online_Spend = 10, csv_Offline_Spend = 20, csv_Discount_pct = 10,
       csv_Coupon_Status = ''Used'' \<rparr>"

definition row0 :: row where
  "row0 =
     \<lparr> Transaction_ID = 1, CustomerID = 1, Transaction_Date = jan15, Date = jan15,
       Product_Category = Some ''A'', Product_Description = ''Mug'',
       Gender = ''F'', Location = ''Chicago'',
       Tenure_Months = 12, Quantity = 2, Avg_Price = 5,
       Online_Spend = 10, Offline_Spend = 20, Discount_pct = 10,
       Coupon_Status = ''Used'', Total_Spend = 30, Revenue = 10 \<rparr>"

definition table_of :: "row list \<Rightarrow> frame" where
  "table_of rs =
     \<lparr> rows = rs, Location_categories = [''Chicago''],
       Tenure_Group = None, Discount_Group = None \<rparr>"

section \<open>Properties\<close>

subsection \<open>Loading\<close>

lemmas load_eval = load_def load_with_def csv0_def row0_def table_of_def preprocess_with_def
    astype_category_def title_def str_def upper_def lower_def is_cased_def
    ascii_uppercase_def ascii_lowercase_def

lemma to_datetime_length:
  "to_datetime cs = Inr ts \<Longrightarrow> length ts = length cs"
proof (induction cs arbitrary: ts)
  case Nil
  then show ?case by simp
next
  case (Cons c cs)
  then show ?case by (cases c) (auto split: sum.splits)
qed

lemma map_preprocess_with:
  assumes "length csv = length tds" "length tds = length ds"
    and "\<And>r td d. f (preprocess_with add_op mul_op r td d) = g r"
  shows "map f (map (\<lambda>(r, td, d). preprocess_with add_op mul_op r td d) (zip csv (zip tds ds)))
       = map g csv"
  using assms(1,2)
proof (induction csv tds ds rule: list_induct3)
  case Nil
  then show ?case by simp
next
  case (Cons x xs y ys z zs)
  then show ?case by (simp add: assms(3))
qed

lemma load_with_fails_on_dates:
  "isl (load_with add_op mul_op csv)
     = (isl (to_datetime (map csv_Transaction_Date csv)) \<or> isl (to_datetime (map csv_Date csv)))"
  by (simp add: load_with_def Let_def split: sum.splits)

text \<open>
  C3, as the code has it. Whatever the arithmetic of the columns' dtype, a loaded table
  holds for every row of the file the sum of its offline and online spend and the product
  of its quantity and price, as that arithmetic computes them; and whether the load fails
  does not depend on the amounts or on these results: two files with the same date cells
  both load or both fail. No value of \<^verbatim>\<open>Total_Spend\<close> or \<^verbatim>\<open>Revenue\<close> makes the load fail.
\<close>

theorem load_stores_amounts_unchecked:
  "(load_with add_op mul_op csv = Inr table
      \<longrightarrow> map Total_Spend (rows table)
            = map (\<lambda>r. add_op (csv_Offline_Spend r) (csv_Online_Spend r)) csv
        \<and> map Revenue (rows table)
            = map (\<lambda>r. mul_op (csv_Quantity r) (csv_Avg_Price r)) csv)
   \<and> (map csv_Transaction_Date csv' = map csv_Transaction_Date csv
        \<and> map csv_Date csv' = map csv_Date csv
      \<longrightarrow> isl (load_with add_op' mul_op' csv') = isl (load_with add_op mul_op csv))"
proof (intro conjI impI)
  assume loaded: "load_with add_op mul_op csv = Inr table"
  obtain tds where tds: "to_datetime (map csv_Transaction_Date csv) = Inr tds"
    using loaded by (cases "to_datetime (map csv_Transaction_Date csv)") (simp_all add: load_with_def)
  obtain ds where ds: "to_datetime (map csv_Date csv) = Inr ds"
    using loaded tds by (cases "to_datetime (map csv_Date csv)") (simp_all add: load_with_def)
  let ?rs = "map (\<lambda>(r, td, d). preprocess_with add_op mul_op r td d) (zip csv (zip tds ds))"
  have len: "length csv = length tds" "length tds = length ds"
    using to_datetime_length [OF tds] to_datetime_length [OF ds] by simp_all
  have rows: "rows table = ?rs"
    using loaded by (auto simp: load_with_def tds ds)
  show "map Total_Spend (rows table)
      = map (\<lambda>r. add_op (csv_Offline_Spend r) (csv_Online_Spend r)) csv"
    unfolding rows by (rule map_preprocess_with [OF len]) (simp add: preprocess_with_def)
  show "map Revenue (rows table) = map (\<lambda>r. mul_op (csv_Quantity r) (csv_Avg_Price r)) csv"
    unfolding rows by (rule map_preprocess_with [OF len]) (simp add: preprocess_with_def)
next
  assume "map csv_Transaction_Date csv' = map csv_Transaction_Date csv
      \<and> map csv_Date csv' = map csv_Date csv"
  then show "isl (load_with add_op' mul_op' csv') = isl (load_with add_op mul_op csv)"
    by (simp add: load_with_fails_on_dates)
qed

text \<open>
  The theorem at a file of integers, in int64: a quantity and a price of 4000000000 load
  with the wrapped revenue -2446744073709551616, and the file loads as the file of the
  example row does, which has the same date cells.
\<close>

theorem load_stores_amounts_unchecked_witness:
  "load_with int64_add int64_mul [csv0\<lparr>csv_Quantity := 4000000000, csv_Avg_Price := 4000000000\<rparr>]
     = Inr (table_of [row0\<lparr>Quantity := 4000000000, Avg_Price := 4000000000,
                           Revenue := -2446744073709551616\<rparr>])
   \<and> map Total_Spend (rows (table_of [row0\<lparr>Quantity := 4000000000, Avg_Price := 4000000000,
                           Revenue := -2446744073709551616\<rparr>])) = [30]
   \<and> map Revenue (rows (table_of [row0\<lparr>Quantity := 4000000000, Avg_Price := 4000000000,
                           Revenue := -2446744073709551616\<rparr>])) = [-2446744073709551616]
   \<and> map csv_Transaction_Date [csv0]
       = map csv_Transaction_Date [csv0\<lparr>csv_Quantity := 4000000000, csv_Avg_Price := 4000000000\<rparr>]
   \<and> map csv_Date [csv0]
       = map csv_Date [csv0\<lparr>csv_Quantity := 4000000000, csv_Avg_Price := 4000000000\<rparr>]
   \<and> isl (load_with (+) (*) [csv0])
       = isl (load_with int64_add int64_mul
                [csv0\<lparr>csv_Quantity := 4000000000, csv_Avg_Price := 4000000000\<rparr>])
   \<and> \<not> isl (load_with (+) (*) [csv0])"
proof -
  let ?big = "[csv0\<lparr>csv_Quantity := 4000000000, csv_Avg_Price := 4000000000\<rparr>]"
  let ?table = "table_of [row0\<lparr>Quantity := 4000000000, Avg_Price := 4000000000,
      Revenue := -2446744073709551616\<rparr>]"
  have loaded: "load_with int64_add int64_mul ?big = Inr ?table"
    by (simp add: load_eval int64_add_def int64_mul_def wrap64_def)
  have dates: "map csv_Transaction_Date [csv0] = map csv_Transaction_Date ?big
      \<and> map csv_Date [csv0] = map csv_Date ?big"
    by simp
  have small: "\<not> isl (load_with (+) (*) [csv0])"
    by (simp add: load_eval)
  have stored: "map Total_Spend (rows ?table)
        = map (\<lambda>r. int64_add (csv_Offline_Spend r) (csv_Online_Spend r)) ?big
      \<and> map Revenue (rows ?table)
        = map (\<lambda>r. int64_mul (csv_Quantity r) (csv_Avg_Price r)) ?big"
    using loaded load_stores_amounts_unchecked
      [of int64_add int64_mul ?big ?table "[csv0]" "(+)" "(*)"]
    by blast
  have same: "isl (load_with (+) (*) [csv0]) = isl (load_with int64_add int64_mul ?big)"
    using dates load_stores_amounts_unchecked
      [of int64_add int64_mul ?big ?table "[csv0]" "(+)" "(*)"]
    by blast
  have "map Total_Spend (rows ?table) = [30]"
    "map Revenue (rows ?table) = [-2446744073709551616]"
    using stored by (simp_all add: csv0_def int64_add_def int64_mul_def wrap64_def)
  then show ?thesis
    using loaded dates same small by blast
qed

text \<open>
  C3, refuted as stated. A CSV row with a negative quantity and a negative online spend
  loads: the table holds a total spend of -30 and a revenue of -5. On these amounts the
  int64 operations compute what the reals do, and so does float64.
\<close>

theorem load_keeps_negative_amounts:
  "load [csv0\<lparr>csv_Quantity := -1, csv_Online_Spend := -50\<rparr>]
     = Inr (table_of [row0\<lparr>Quantity := -1, Online_Spend := -50, Total_Spend := -30, Revenue := -5\<rparr>])
   \<and> map Total_Spend (rows (table_of [row0\<lparr>Quantity := -1, Online_Spend := -50, Total_Spend := -30, Revenue := -5\<rparr>])) = [-30]
   \<and> map Revenue (rows (table_of [row0\<lparr>Quantity := -1, Online_Spend := -50, Total_Spend := -30, Revenue := -5\<rparr>])) = [-5]
   \<and> load_with int64_add int64_mul [csv0\<lparr>csv_Quantity := -1, csv_Online_Spend := -50\<rparr>]
     = Inr (table_of [row0\<lparr>Quantity := -1, Online_Spend := -50, Total_Spend := -30, Revenue := -5\<rparr>])"
  by (simp add: load_eval int64_add_def int64_mul_def wrap64_def floor_minus)

subsection \<open>What the callback returns\<close>

lemma keep_isin:
  "keep (isin (map g xs) vals) xs = filter (\<lambda>r. g r \<in> Some ` set vals) xs"
  by (induction xs) (auto simp: keep_def isin_def split: option.splits)

lemma FilteredView_steps:
  "FilteredView table categories locations =
     (let r1 = (if truthy categories
                then filter (\<lambda>r. Product_Category r \<in> Some ` set (selected categories)) (rows table)
                else rows table)
      in if truthy locations
         then filter (\<lambda>r. Some (Location r) \<in> Some ` set (selected locations)) r1
         else r1)"
  by (auto simp: FilteredView_def matches_def Let_def intro: filter_cong)

lemma zip_cells_take:
  "zip (take n fv) (zip (map (Some \<circ> (g \<circ> a)) (take n fv)) (map (Some \<circ> (h \<circ> b)) (take n fv)))
   = map (\<lambda>r. (r, Some (g (a r)), Some (h (b r)))) (take n fv)"
  by (induction fv arbitrary: n) (auto simp: take_Cons split: nat.splits)

text \<open>
  The callback always returns; its result is \<open>aggregates\<close> of the FilteredView, the frame it
  filtered and extended is the youngest object of the store, and the objects that existed
  before the call are as they were.
\<close>

lemma update_graphs_eq:
  "\<exists>s'. update_graphs (table # heap) categories locations
          = Some (s', aggregates (FilteredView table categories locations)
                        (Location_categories table))
        \<and> take (Suc (length heap)) s' = table # heap
        \<and> rows (last s') = FilteredView table categories locations"
  by (cases "truthy categories"; cases "truthy locations")
     (simp_all add: update_graphs_def copy_def deref_def alloc_def df_def getitem_def
        setitem_Tenure_Group_def setitem_Discount_Group_def nth_append boolean_index_def
        column_def keep_isin aggregates_def FilteredView_steps cut_def to_dict_records_def
        frame_head_def cells_def take_map zip_cells_take last_list_update)

lemma fig_of_update_graphs:
  "map_option (g \<circ> snd) (update_graphs (table # heap) categories locations)
     = Some (g (aggregates (FilteredView table categories locations) (Location_categories table)))"
  using update_graphs_eq [of table heap categories locations] by auto

subsection \<open>The row preview\<close>

text \<open>
  C8. For every filter the callback returns, and the rows of its preview are the first
  \<open>min 100 |FilteredView|\<close> rows of the FilteredView, which is the frame the callback
  filtered; each entry carries the whole row and the two bucket columns; there are at most
  100 entries, all of them rows of the FilteredView, in the order of the loaded table.
\<close>

theorem table_data_first_100:
  "\<exists>s' b. update_graphs (table # heap) categories locations = Some (s', b)
     \<and> rows (last s') = FilteredView table categories locations
     \<and> map fst (table_data b)
         = take (min 100 (length (FilteredView table categories locations)))
             (FilteredView table categories locations)
     \<and> table_data b
         = map (\<lambda>r. (r, Some (cut1 tenure_bins tenure_labels (Tenure_Months r)),
                         Some (cut1 discount_bins discount_labels (Discount_pct r))))
             (map fst (table_data b))
     \<and> length (table_data b) \<le> 100
     \<and> set (map fst (table_data b)) \<subseteq> set (FilteredView table categories locations)
     \<and> subseq (map fst (table_data b)) (rows table)"
proof -
  let ?fv = "FilteredView table categories locations"
  obtain s' where run: "update_graphs (table # heap) categories locations
      = Some (s', aggregates ?fv (Location_categories table))"
    and youngest: "rows (last s') = ?fv"
    using update_graphs_eq by blast
  let ?b = "aggregates ?fv (Location_categories table)"
  have rows_eq: "map fst (table_data ?b) = take 100 ?fv"
    by (simp add: aggregates_def comp_def)
  have "take 100 ?fv = take (min 100 (length ?fv)) ?fv"
    by (simp add: min_def)
  moreover have "table_data ?b
      = map (\<lambda>r. (r, Some (cut1 tenure_bins tenure_labels (Tenure_Months r)),
                      Some (cut1 discount_bins discount_labels (Discount_pct r))))
          (map fst (table_data ?b))"
    unfolding rows_eq by (simp add: aggregates_def)
  moreover have "length (table_data ?b) \<le> 100"
    by (simp add: aggregates_def)
  moreover have "set (take 100 ?fv) \<subseteq> set ?fv"
    by (rule set_take_subset)
  moreover have "subseq (take 100 ?fv) (rows table)"
  proof -
    have "subseq (take 100 ?fv) ?fv"
      by (metis append_take_drop_id subseq_order.order_refl list_emb_append2 subseq_rev_drop_many
          list_emb_prefix)
    moreover have "subseq ?fv (rows table)"
      by (simp add: FilteredView_def)
    ultimately show ?thesis
      using subseq_order.order_trans by blast
  qed
  ultimately show ?thesis
    using run youngest rows_eq by auto
qed

subsection \<open>The loaded table is not changed\<close>

text \<open>
  C9. The callback works on a copy: after a call with any filter, the object \<^verbatim>\<open>df\<close> refers
  to is the table it was before, and so is every other object that existed before the call.
\<close>

theorem update_graphs_leaves_df:
  "\<exists>s' b. update_graphs (table # heap) categories locations = Some (s', b)
     \<and> s' ! df = table
     \<and> take (length (table # heap)) s' = table # heap"
proof -
  obtain s' where run: "update_graphs (table # heap) categories locations
      = Some (s', aggregates (FilteredView table categories locations)
                    (Location_categories table))"
    and old: "take (Suc (length heap)) s' = table # heap"
    using update_graphs_eq by blast
  have "s' ! 0 = take (Suc (length heap)) s' ! 0"
    by simp
  then have "s' ! df = table"
    using old by (simp add: df_def)
  then show ?thesis
    using run old by simp
qed


subsection \<open>Buckets\<close>

text \<open>The two calls of \<^verbatim>\<open>pd.cut\<close>, value by value.\<close>

lemma cut1_discount:
  "cut1 discount_bins discount_labels x =
     (if x \<le> 0 then None
      else if x \<le> 5 then Some ''0-5%''
      else if x \<le> 10 then Some ''5-10%''
      else if x \<le> 15 then Some ''10-15%''
      else if x \<le> 20 then Some ''15-20%''
      else if x \<le> 100 then Some ''20%+''
      else None)"
  by (simp add: cut1_def searchsorted_left_def discount_bins_def discount_labels_def)

lemma cut1_tenure:
  "cut1 tenure_bins tenure_labels x =
     (if x \<le> 0 then None
      else if x \<le> 6 then Some ''0-6''
      else if x \<le> 12 then Some ''7-12''
      else if x \<le> 24 then Some ''13-24''
      else if x \<le> 36 then Some ''25-36''
      else Some ''36+'')"
  by (simp add: cut1_def searchsorted_left_def tenure_bins_def tenure_labels_def)

lemma group_map:
  "group (map g fv) (map v fv) k = map v (filter (\<lambda>r. g r = Some k) fv)"
  by (induction fv) (simp_all add: group_def)

lemma groupby_categorical_cut:
  "groupby_categorical (cut (map g fv) bins labels) (map v fv) agg
     = map (\<lambda>k. (k, agg (map v (filter (\<lambda>r. cut1 bins labels (g r) = Some k) fv)))) labels"
  using group_map [of "cut1 bins labels \<circ> g" fv v]
  by (simp add: groupby_categorical_def cut_def)

lemma discount_fig_aggregates:
  "discount_fig (aggregates fv cats)
     = map (\<lambda>k. (k, mean (map Revenue
              (filter (\<lambda>r. cut1 discount_bins discount_labels (Discount_pct r) = Some k) fv))))
         discount_labels"
  by (simp add: aggregates_def groupby_categorical_cut)

lemma tenure_fig_aggregates:
  "tenure_fig (aggregates fv cats)
     = map (\<lambda>k. (k, mean (map Total_Spend
              (filter (\<lambda>r. cut1 tenure_bins tenure_labels (Tenure_Months r) = Some k) fv))))
         tenure_labels"
  by (simp add: aggregates_def groupby_categorical_cut)

lemma filter_bucket_restrict:
  assumes "\<And>x. cut1 bins labels x = Some k \<Longrightarrow> P x"
  shows "filter (\<lambda>r. P (g r) \<and> cut1 bins labels (g r) = Some k) fv
       = filter (\<lambda>r. cut1 bins labels (g r) = Some k) fv"
  using assms by (induction fv) auto

lemma top_bucket:
  "map_of (map (\<lambda>k. (k, f k)) discount_labels) ''20%+'' = Some (f ''20%+'')"
  by (simp add: discount_labels_def)


lemma FilteredView_filter_rows:
  "FilteredView (table\<lparr>rows := filter P (rows table)\<rparr>) categories locations
     = filter P (FilteredView table categories locations)"
  by (auto simp: FilteredView_def intro: filter_cong)

lemma discount_fig_restrict:
  assumes "\<forall>x k. cut1 discount_bins discount_labels x = Some k \<longrightarrow> P x"
  shows "\<exists>s'' b'. update_graphs (table\<lparr>rows := filter (\<lambda>r. P (Discount_pct r)) (rows table)\<rparr> # heap)
             categories locations = Some (s'', b')
           \<and> discount_fig b'
               = discount_fig (aggregates (FilteredView table categories locations)
                   (Location_categories table))"
proof -
  let ?t = "table\<lparr>rows := filter (\<lambda>r. P (Discount_pct r)) (rows table)\<rparr>"
  let ?fv = "FilteredView table categories locations"
  obtain s'' where run: "update_graphs (?t # heap) categories locations
      = Some (s'', aggregates (FilteredView ?t categories locations) (Location_categories ?t))"
    using update_graphs_eq by blast
  have "discount_fig (aggregates (FilteredView ?t categories locations) (Location_categories ?t))
      = discount_fig (aggregates ?fv (Location_categories table))"
    unfolding discount_fig_aggregates FilteredView_filter_rows
    using assms by (simp add: filter_bucket_restrict [of discount_bins discount_labels _ P])
  then show ?thesis
    using run by blast
qed

text \<open>
  C6. For every filter the discount figure has, for each label, the mean revenue of the rows
  of the FilteredView that \<^verbatim>\<open>pd.cut\<close> gives that label, and the callback returns the same
  discount figure for the table without its rows of discount at most 0. A discount of 0
  gets no label, 5 gets \<^verbatim>\<open>0-5%\<close>, 5.1 gets \<^verbatim>\<open>5-10%\<close>, and no discount at or below 0 gets a
  label.
\<close>

theorem discount_buckets:
  "(\<exists>s' b s'' b'. update_graphs (table # heap) categories locations = Some (s', b)
      \<and> discount_fig b
          = map (\<lambda>k. (k, mean (map Revenue
                   (filter (\<lambda>r. cut1 discount_bins discount_labels (Discount_pct r) = Some k)
                      (FilteredView table categories locations)))))
              discount_labels
      \<and> update_graphs (table\<lparr>rows := filter (\<lambda>r. 0 < Discount_pct r) (rows table)\<rparr> # heap)
            categories locations = Some (s'', b')
      \<and> discount_fig b' = discount_fig b)
   \<and> cut1 discount_bins discount_labels 0 = None
   \<and> cut1 discount_bins discount_labels 5 = Some ''0-5%''
   \<and> cut1 discount_bins discount_labels 5.1 = Some ''5-10%''
   \<and> (\<forall>x. x \<le> 0 \<longrightarrow> cut1 discount_bins discount_labels x = None)"
proof (intro conjI)
  let ?fv = "FilteredView table categories locations"
  let ?b = "aggregates ?fv (Location_categories table)"
  obtain s' where run: "update_graphs (table # heap) categories locations = Some (s', ?b)"
    using update_graphs_eq by blast
  have pos: "\<forall>x k. cut1 discount_bins discount_labels x = Some k \<longrightarrow> 0 < x"
    by (simp add: cut1_discount split: if_splits)
  obtain s'' b' where run': "update_graphs
        (table\<lparr>rows := filter (\<lambda>r. 0 < Discount_pct r) (rows table)\<rparr> # heap)
        categories locations = Some (s'', b')"
    and same: "discount_fig b' = discount_fig ?b"
    using discount_fig_restrict [where P = "\<lambda>x. 0 < x", OF pos] by blast
  show "\<exists>s' b s'' b'. update_graphs (table # heap) categories locations = Some (s', b)
      \<and> discount_fig b
          = map (\<lambda>k. (k, mean (map Revenue
                   (filter (\<lambda>r. cut1 discount_bins discount_labels (Discount_pct r) = Some k) ?fv))))
              discount_labels
      \<and> update_graphs (table\<lparr>rows := filter (\<lambda>r. 0 < Discount_pct r) (rows table)\<rparr> # heap)
            categories locations = Some (s'', b')
      \<and> discount_fig b' = discount_fig b"
    by (intro exI [of _ s'] exI [of _ ?b] exI [of _ s''] exI [of _ b'] conjI run
        discount_fig_aggregates run' same)
  show "cut1 discount_bins discount_labels 0 = None"
    by (simp add: cut1_discount)
  show "cut1 discount_bins discount_labels 5 = Some ''0-5%''"
    by (simp add: cut1_discount)
  show "cut1 discount_bins discount_labels 5.1 = Some ''5-10%''"
    by (simp add: cut1_discount)
  show "\<forall>x. x \<le> 0 \<longrightarrow> cut1 discount_bins discount_labels x = None"
    by (simp add: cut1_discount)
qed

theorem discount_buckets_witness:
  "(-1::real) \<le> 0 \<and> cut1 discount_bins discount_labels (-1) = None"
proof -
  have "\<forall>x. x \<le> 0 \<longrightarrow> cut1 discount_bins discount_labels x = None"
    using discount_buckets [of "table_of [row0]" "[]" None None] by (elim conjE)
  then show ?thesis
    by simp
qed

text \<open>
  C10. The last edge of the discount bins is 100: a discount above 100 gets no label, the
  label \<^verbatim>\<open>20%+\<close> is given exactly to the discounts in \<open>(20, 100]\<close>, its mean is taken over
  exactly the rows with such a discount, and the callback returns the same discount figure
  for the table without its rows of discount above 100.
\<close>

theorem discount_above_100_excluded:
  "(\<exists>s' b s'' b'. update_graphs (table # heap) categories locations = Some (s', b)
      \<and> map_of (discount_fig b) ''20%+''
          = Some (mean (map Revenue
              (filter (\<lambda>r. 20 < Discount_pct r \<and> Discount_pct r \<le> 100)
                 (FilteredView table categories locations))))
      \<and> update_graphs (table\<lparr>rows := filter (\<lambda>r. Discount_pct r \<le> 100) (rows table)\<rparr> # heap)
            categories locations = Some (s'', b')
      \<and> discount_fig b' = discount_fig b)
   \<and> (\<forall>x. 100 < x \<longrightarrow> cut1 discount_bins discount_labels x = None)
   \<and> (\<forall>x. (cut1 discount_bins discount_labels x = Some ''20%+'') = (20 < x \<and> x \<le> 100))"
proof (intro conjI)
  let ?fv = "FilteredView table categories locations"
  let ?b = "aggregates ?fv (Location_categories table)"
  obtain s' where run: "update_graphs (table # heap) categories locations = Some (s', ?b)"
    using update_graphs_eq by blast
  have le: "\<forall>x k. cut1 discount_bins discount_labels x = Some k \<longrightarrow> x \<le> 100"
    by (simp add: cut1_discount split: if_splits)
  have top: "(cut1 discount_bins discount_labels x = Some ''20%+'') = (20 < x \<and> x \<le> 100)" for x
    by (simp add: cut1_discount)
  obtain s'' b' where run': "update_graphs
        (table\<lparr>rows := filter (\<lambda>r. Discount_pct r \<le> 100) (rows table)\<rparr> # heap)
        categories locations = Some (s'', b')"
    and same: "discount_fig b' = discount_fig ?b"
    using discount_fig_restrict [where P = "\<lambda>x. x \<le> 100", OF le] by blast
  have bucket: "map_of (discount_fig ?b) ''20%+''
      = Some (mean (map Revenue (filter (\<lambda>r. 20 < Discount_pct r \<and> Discount_pct r \<le> 100) ?fv)))"
    unfolding discount_fig_aggregates top_bucket by (simp add: top)
  show "\<exists>s' b s'' b'. update_graphs (table # heap) categories locations = Some (s', b)
      \<and> map_of (discount_fig b) ''20%+''
          = Some (mean (map Revenue (filter (\<lambda>r. 20 < Discount_pct r \<and> Discount_pct r \<le> 100) ?fv)))
      \<and> update_graphs (table\<lparr>rows := filter (\<lambda>r. Discount_pct r \<le> 100) (rows table)\<rparr> # heap)
            categories locations = Some (s'', b')
      \<and> discount_fig b' = discount_fig b"
    by (intro exI [of _ s'] exI [of _ ?b] exI [of _ s''] exI [of _ b'] conjI run bucket run' same)
  show "\<forall>x. 100 < x \<longrightarrow> cut1 discount_bins discount_labels x = None"
    by (simp add: cut1_discount)
  show "\<forall>x. (cut1 discount_bins discount_labels x = Some ''20%+'') = (20 < x \<and> x \<le> 100)"
    using top by blast
qed

theorem discount_above_100_excluded_witness:
  "(100::real) < 150 \<and> cut1 discount_bins discount_labels 150 = None"
proof -
  have "\<forall>x. 100 < x \<longrightarrow> cut1 discount_bins discount_labels x = None"
    using discount_above_100_excluded [of "table_of [row0]" "[]" None None] by (elim conjE)
  then show ?thesis
    by simp
qed

text \<open>
  C2, evaluated. The first tenure edge is 0 and \<^verbatim>\<open>pd.cut\<close> excludes the lowest edge, so a
  tenure of 0 gets no label although the first label reads \<^verbatim>\<open>0-6\<close>: for the table loaded from
  one CSV row of tenure 0, every tenure bucket is empty. Tenures 6 and 7 get \<^verbatim>\<open>0-6\<close> and
  \<^verbatim>\<open>7-12\<close>; the tenures without a label are those at or below 0.
\<close>

theorem tenure_zero_in_no_bucket:
  "load [csv0\<lparr>csv_Tenure_Months := 0\<rparr>] = Inr (table_of [row0\<lparr>Tenure_Months := 0\<rparr>])
   \<and> map_option (tenure_fig \<circ> snd) (update_graphs [table_of [row0\<lparr>Tenure_Months := 0\<rparr>]] None None)
       = Some [(''0-6'', None), (''7-12'', None), (''13-24'', None), (''25-36'', None), (''36+'', None)]
   \<and> cut1 tenure_bins tenure_labels 0 = None
   \<and> cut1 tenure_bins tenure_labels 6 = Some ''0-6''
   \<and> cut1 tenure_bins tenure_labels 7 = Some ''7-12''
   \<and> (\<forall>x. (cut1 tenure_bins tenure_labels x = None) = (x \<le> 0))"
proof (intro conjI)
  show "load [csv0\<lparr>csv_Tenure_Months := 0\<rparr>] = Inr (table_of [row0\<lparr>Tenure_Months := 0\<rparr>])"
    by (simp add: load_eval)
  show "map_option (tenure_fig \<circ> snd) (update_graphs [table_of [row0\<lparr>Tenure_Months := 0\<rparr>]] None None)
       = Some [(''0-6'', None), (''7-12'', None), (''13-24'', None), (''25-36'', None), (''36+'', None)]"
    unfolding fig_of_update_graphs tenure_fig_aggregates
    by (simp add: FilteredView_def matches_def truthy_def table_of_def row0_def
        cut1_tenure [unfolded tenure_labels_def] tenure_labels_def mean_def)
  show "cut1 tenure_bins tenure_labels 0 = None"
    by (simp add: cut1_tenure)
  show "cut1 tenure_bins tenure_labels 6 = Some ''0-6''"
    by (simp add: cut1_tenure)
  show "cut1 tenure_bins tenure_labels 7 = Some ''7-12''"
    by (simp add: cut1_tenure)
  show "\<forall>x. (cut1 tenure_bins tenure_labels x = None) = (x \<le> 0)"
    by (simp add: cut1_tenure)
qed


subsection \<open>The monthly trend\<close>

lemma zip_map_filter_eq:
  "map snd (filter (\<lambda>(p, v). p = k) (zip (map g fv) (map v fv))) = map v (filter (\<lambda>r. g r = k) fv)"
  by (induction fv) simp_all

lemma sales_trend_fig_aggregates:
  "sales_trend_fig (aggregates fv cats)
     = map (\<lambda>k. (k, sum_list (map Revenue (filter (\<lambda>r. to_period_M (Transaction_Date r) = k) fv))))
         (if fv = [] then []
          else [Min (set (map (\<lambda>r. to_period_M (Transaction_Date r)) fv)) ..
                Max (set (map (\<lambda>r. to_period_M (Transaction_Date r)) fv))])"
  using zip_map_filter_eq [of _ "\<lambda>r. to_period_M (Transaction_Date r)" fv Revenue]
  by (simp add: aggregates_def groupby_Grouper_M_sum_def Let_def comp_def)

text \<open>
  C1, as the code has it. For every filter the months of the trend are exactly the calendar
  months from that of the earliest row of the FilteredView to that of its latest row, in
  order and once each; the value of a month is the sum of the revenue of its rows, which is
  0 for a month in that range without a row. A month before the first or after the last row
  does not appear.
\<close>

theorem sales_trend_months:
  "\<exists>s' b. update_graphs (table # heap) categories locations = Some (s', b)
     \<and> set (map fst (sales_trend_fig b))
         = {k. \<exists>r1 \<in> set (FilteredView table categories locations).
               \<exists>r2 \<in> set (FilteredView table categories locations).
                 to_period_M (Transaction_Date r1) \<le> k \<and> k \<le> to_period_M (Transaction_Date r2)}
     \<and> sales_trend_fig b
         = map (\<lambda>k. (k, sum_list (map Revenue
                  (filter (\<lambda>r. to_period_M (Transaction_Date r) = k)
                     (FilteredView table categories locations)))))
             (map fst (sales_trend_fig b))
     \<and> sorted (map fst (sales_trend_fig b))
     \<and> distinct (map fst (sales_trend_fig b))"
proof -
  let ?fv = "FilteredView table categories locations"
  let ?b = "aggregates ?fv (Location_categories table)"
  let ?p = "\<lambda>r. to_period_M (Transaction_Date r)"
  let ?ks = "if ?fv = [] then [] else [Min (set (map ?p ?fv)) .. Max (set (map ?p ?fv))]"
  obtain s' where run: "update_graphs (table # heap) categories locations = Some (s', ?b)"
    using update_graphs_eq by blast
  have keys: "map fst (sales_trend_fig ?b) = ?ks"
    unfolding sales_trend_fig_aggregates by (simp add: comp_def)
  have months: "set ?ks = {k. \<exists>r1 \<in> set ?fv. \<exists>r2 \<in> set ?fv. ?p r1 \<le> k \<and> k \<le> ?p r2}"
  proof (cases "?fv = []")
    case True
    then show ?thesis by simp
  next
    case False
    have "(Min (?p ` set ?fv) \<le> k) = (\<exists>r1 \<in> set ?fv. ?p r1 \<le> k)" for k
      using False by (subst Min_le_iff) auto
    moreover have "(k \<le> Max (?p ` set ?fv)) = (\<exists>r2 \<in> set ?fv. k \<le> ?p r2)" for k
      using False by (subst Max_ge_iff) auto
    ultimately show ?thesis
      using False by auto
  qed
  have vals: "sales_trend_fig ?b
      = map (\<lambda>k. (k, sum_list (map Revenue (filter (\<lambda>r. ?p r = k) ?fv)))) (map fst (sales_trend_fig ?b))"
    unfolding keys unfolding sales_trend_fig_aggregates by simp
  have "sorted ?ks" "distinct ?ks"
    by simp_all
  then have "sorted (map fst (sales_trend_fig ?b))" "distinct (map fst (sales_trend_fig ?b))"
    unfolding keys by simp_all
  then show ?thesis
    using run months vals keys by (intro exI [of _ s'] exI [of _ ?b]) simp
qed

text \<open>
  C1, refuted as stated. The table loaded from a row of January 2020 and a row of March
  2020, with no filter: February 2020 (month 24241) has no row and appears with value 0.
\<close>

theorem gap_month_is_zero_filled:
  "load [csv0, csv0\<lparr>csv_Transaction_Date := Parsed mar01\<rparr>]
     = Inr (table_of [row0, row0\<lparr>Transaction_Date := mar01\<rparr>])
   \<and> map_option (sales_trend_fig \<circ> snd)
       (update_graphs [table_of [row0, row0\<lparr>Transaction_Date := mar01\<rparr>]] None None)
       = Some [(24240, 10), (24241, 0), (24242, 10)]
   \<and> map (\<lambda>r. to_period_M (Transaction_Date r))
       (FilteredView (table_of [row0, row0\<lparr>Transaction_Date := mar01\<rparr>]) None None)
       = [24240, 24242]"
proof (intro conjI)
  show "load [csv0, csv0\<lparr>csv_Transaction_Date := Parsed mar01\<rparr>]
     = Inr (table_of [row0, row0\<lparr>Transaction_Date := mar01\<rparr>])"
    by (simp add: load_eval)
  have fv: "FilteredView (table_of [row0, row0\<lparr>Transaction_Date := mar01\<rparr>]) None None
      = [row0, row0\<lparr>Transaction_Date := mar01\<rparr>]"
    by (simp add: FilteredView_def matches_def truthy_def table_of_def)
  show "map (\<lambda>r. to_period_M (Transaction_Date r))
       (FilteredView (table_of [row0, row0\<lparr>Transaction_Date := mar01\<rparr>]) None None)
       = [24240, 24242]"
    unfolding fv by (simp add: row0_def to_period_M_def jan15_def mar01_def)
  show "map_option (sales_trend_fig \<circ> snd)
       (update_graphs [table_of [row0, row0\<lparr>Transaction_Date := mar01\<rparr>]] None None)
       = Some [(24240, 10), (24241, 0), (24242, 10)]"
    unfolding fig_of_update_graphs fv sales_trend_fig_aggregates
    by (simp add: row0_def to_period_M_def jan15_def mar01_def upto.simps)
qed


subsection \<open>Sorted figures\<close>

lemma sorted_desc_sort_values:
  "sorted_wrt (\<lambda>x y. x \<ge> y) (map snd (sort_values_desc xs))"
proof -
  have "sorted (map snd (sort_key snd (rev xs)))"
    by (rule sorted_sort_key)
  then show ?thesis
    by (simp add: sort_values_desc_def rev_map [symmetric] sorted_wrt_rev)
qed

lemma mset_sort_values [simp]:
  "mset (sort_values_desc xs) = mset xs"
  by (simp add: sort_values_desc_def)

lemma sort_values_desc_Nil [simp]: "sort_values_desc [] = []"
  by (simp add: sort_values_desc_def)

lemma groupby_Nil [simp]: "groupby [] [] agg = []"
  by (simp add: groupby_def List.map_filter_simps)

lemma group_Nil [simp]: "group [] [] k = []"
  by (simp add: group_def)

lemma map_filter_id_map:
  "List.map_filter id (map f xs) = List.map_filter f xs"
  by (induction xs) (simp_all add: List.map_filter_simps split: option.splits)

lemma category_fig_aggregates:
  "category_fig (aggregates fv cats)
     = sort_values_desc
         (map (\<lambda>k. (k, sum_list (map Revenue (filter (\<lambda>r. Product_Category r = Some k) fv))))
            (sort (remdups (List.map_filter Product_Category fv))))"
  by (simp add: aggregates_def groupby_def group_map map_filter_id_map)

lemma location_fig_aggregates:
  "location_fig (aggregates fv cats)
     = sort_values_desc
         (map (\<lambda>k. (k, sum_list (map Total_Spend (filter (\<lambda>r. Location r = k) fv)))) cats)"
  using group_map [of "Some \<circ> Location" fv Total_Spend]
  by (simp add: aggregates_def groupby_categorical_def comp_def)

text \<open>
  C7, as the code has it. For every filter the category figure and the location figure are
  in descending order of their sums. The category figure holds one entry for each category
  that occurs in the FilteredView, with the sum of the revenue of its rows; the location
  figure holds one entry for each location category of the loaded table, with the sum of the
  total spend of its rows in the FilteredView. Nothing is stated about the order among equal
  sums.
\<close>

theorem revenue_and_spending_descending:
  "\<exists>s' b. update_graphs (table # heap) categories locations = Some (s', b)
     \<and> sorted_wrt (\<lambda>x y. x \<ge> y) (map snd (category_fig b))
     \<and> mset (category_fig b)
         = mset (map (\<lambda>k. (k, sum_list (map Revenue
                    (filter (\<lambda>r. Product_Category r = Some k)
                       (FilteredView table categories locations)))))
                  (sort (remdups (List.map_filter Product_Category
                     (FilteredView table categories locations)))))
     \<and> sorted_wrt (\<lambda>x y. x \<ge> y) (map snd (location_fig b))
     \<and> mset (location_fig b)
         = mset (map (\<lambda>k. (k, sum_list (map Total_Spend
                    (filter (\<lambda>r. Location r = k) (FilteredView table categories locations)))))
                  (Location_categories table))"
proof -
  let ?fv = "FilteredView table categories locations"
  let ?b = "aggregates ?fv (Location_categories table)"
  obtain s' where run: "update_graphs (table # heap) categories locations = Some (s', ?b)"
    using update_graphs_eq by blast
  have "sorted_wrt (\<lambda>x y. x \<ge> y) (map snd (category_fig ?b))"
    unfolding category_fig_aggregates by (rule sorted_desc_sort_values)
  moreover have "sorted_wrt (\<lambda>x y. x \<ge> y) (map snd (location_fig ?b))"
    unfolding location_fig_aggregates by (rule sorted_desc_sort_values)
  moreover have "mset (category_fig ?b)
      = mset (map (\<lambda>k. (k, sum_list (map Revenue (filter (\<lambda>r. Product_Category r = Some k) ?fv))))
                (sort (remdups (List.map_filter Product_Category ?fv))))"
    unfolding category_fig_aggregates by (rule mset_sort_values)
  moreover have "mset (location_fig ?b)
      = mset (map (\<lambda>k. (k, sum_list (map Total_Spend (filter (\<lambda>r. Location r = k) ?fv))))
                (Location_categories table))"
    unfolding location_fig_aggregates by (rule mset_sort_values)
  ultimately show ?thesis
    using run by (intro exI [of _ s'] exI [of _ ?b]) simp
qed

text \<open>
  C7, refuted as stated. \<^verbatim>\<open>groupby\<close> lists the groups in key order before
  \<^verbatim>\<open>sort_values\<close> sees them, so the figure does not depend on the order of the rows: for
  the table loaded from a row of category B followed by a row of category A, both with
  revenue 10, the figure lists A before B, as it does for the two rows in the other order.
\<close>

theorem tie_in_key_order:
  "load [csv0\<lparr>csv_Product_Category := Some ''B''\<rparr>, csv0]
     = Inr (table_of [row0\<lparr>Product_Category := Some ''B''\<rparr>, row0])
   \<and> map_option (category_fig \<circ> snd)
       (update_graphs [table_of [row0\<lparr>Product_Category := Some ''B''\<rparr>, row0]] None None)
       = Some [(''A'', 10), (''B'', 10)]
   \<and> map Product_Category
       (FilteredView (table_of [row0\<lparr>Product_Category := Some ''B''\<rparr>, row0]) None None)
       = [Some ''B'', Some ''A'']
   \<and> map_option (category_fig \<circ> snd)
       (update_graphs [table_of [row0, row0\<lparr>Product_Category := Some ''B''\<rparr>]] None None)
       = Some [(''A'', 10), (''B'', 10)]"
proof (intro conjI)
  have fv': "FilteredView (table_of [row0, row0\<lparr>Product_Category := Some ''B''\<rparr>]) None None
      = [row0, row0\<lparr>Product_Category := Some ''B''\<rparr>]"
    by (simp add: FilteredView_def matches_def truthy_def table_of_def)
  show "map_option (category_fig \<circ> snd)
       (update_graphs [table_of [row0, row0\<lparr>Product_Category := Some ''B''\<rparr>]] None None)
       = Some [(''A'', 10), (''B'', 10)]"
    unfolding fig_of_update_graphs fv' category_fig_aggregates
    by (simp add: row0_def List.map_filter_simps sort_values_desc_def)
  show "load [csv0\<lparr>csv_Product_Category := Some ''B''\<rparr>, csv0]
     = Inr (table_of [row0\<lparr>Product_Category := Some ''B''\<rparr>, row0])"
    by (simp add: load_eval)
  have fv: "FilteredView (table_of [row0\<lparr>Product_Category := Some ''B''\<rparr>, row0]) None None
      = [row0\<lparr>Product_Category := Some ''B''\<rparr>, row0]"
    by (simp add: FilteredView_def matches_def truthy_def table_of_def)
  show "map Product_Category
       (FilteredView (table_of [row0\<lparr>Product_Category := Some ''B''\<rparr>, row0]) None None)
       = [Some ''B'', Some ''A'']"
    unfolding fv by (simp add: row0_def)
  show "map_option (category_fig \<circ> snd)
       (update_graphs [table_of [row0\<lparr>Product_Category := Some ''B''\<rparr>, row0]] None None)
       = Some [(''A'', 10), (''B'', 10)]"
    unfolding fig_of_update_graphs fv category_fig_aggregates
    by (simp add: row0_def List.map_filter_simps sort_values_desc_def)
qed

subsection \<open>An empty FilteredView\<close>

lemma mean_Nil [simp]: "mean [] = None"
  by (simp add: mean_def)

lemma aggregates_Nil:
  "sales_trend_fig (aggregates [] cats) = []"
  "category_fig (aggregates [] cats) = []"
  "products_fig (aggregates [] cats) = []"
  "gender_fig (aggregates [] cats) = []"
  "coupon_fig (aggregates [] cats) = []"
  "table_data (aggregates [] cats) = []"
  "tenure_fig (aggregates [] cats) = map (\<lambda>k. (k, None)) tenure_labels"
  "discount_fig (aggregates [] cats) = map (\<lambda>k. (k, None)) discount_labels"
  by (simp_all add: aggregates_def groupby_Grouper_M_sum_def head_def groupby_categorical_def cut_def)

lemma location_fig_Nil:
  "map snd (location_fig (aggregates [] cats)) = replicate (length cats) 0"
  "mset (map fst (location_fig (aggregates [] cats))) = mset cats"
proof -
  let ?xs = "map (\<lambda>k. (k, 0::real)) cats"
  have fig: "location_fig (aggregates [] cats) = sort_values_desc ?xs"
    by (simp add: location_fig_aggregates)
  have "set (sort_values_desc ?xs) = set ?xs"
    by (metis mset_sort_values set_mset_mset)
  then have "\<forall>p \<in> set (sort_values_desc ?xs). snd p = 0"
    by auto
  then have "map snd (sort_values_desc ?xs) = replicate (length (sort_values_desc ?xs)) 0"
    by (induction "sort_values_desc ?xs") (auto simp: map_replicate_const [symmetric] intro: map_idI)
  moreover have "length (sort_values_desc ?xs) = length cats"
    by (simp add: sort_values_desc_def)
  ultimately show "map snd (location_fig (aggregates [] cats)) = replicate (length cats) 0"
    using fig by simp
  have "mset (map fst (sort_values_desc ?xs)) = image_mset fst (mset ?xs)"
    by (simp only: mset_map mset_sort_values)
  then show "mset (map fst (location_fig (aggregates [] cats))) = mset cats"
    using fig by (simp add: image_mset.compositionality comp_def)
qed

text \<open>
  C4, as the code has it. When the FilteredView is empty the callback returns without an
  error; the monthly, category, product, gender and coupon figures and the row preview are
  empty; the tenure and the discount figure list all five labels, each with no value for
  the mean; the location figure lists every location category of the loaded table, each
  with sum 0.
\<close>

theorem empty_view_figures:
  assumes "FilteredView table categories locations = []"
  shows "\<exists>s' b. update_graphs (table # heap) categories locations = Some (s', b)
     \<and> sales_trend_fig b = [] \<and> category_fig b = [] \<and> products_fig b = []
     \<and> gender_fig b = [] \<and> coupon_fig b = [] \<and> table_data b = []
     \<and> tenure_fig b = map (\<lambda>k. (k, None)) tenure_labels
     \<and> discount_fig b = map (\<lambda>k. (k, None)) discount_labels
     \<and> map snd (location_fig b) = replicate (length (Location_categories table)) 0
     \<and> mset (map fst (location_fig b)) = mset (Location_categories table)"
proof -
  obtain s' where run: "update_graphs (table # heap) categories locations
      = Some (s', aggregates [] (Location_categories table))"
    using update_graphs_eq [of table heap categories locations] assms by auto
  show ?thesis
    by (intro exI [of _ s'] exI [of _ "aggregates [] (Location_categories table)"] conjI run
        aggregates_Nil location_fig_Nil)
qed

theorem empty_view_figures_witness:
  "FilteredView (table_of [row0]) (Some [''Nope'']) None = []
   \<and> (\<exists>s' b. update_graphs [table_of [row0]] (Some [''Nope'']) None = Some (s', b)
        \<and> category_fig b = [] \<and> table_data b = []
        \<and> tenure_fig b = map (\<lambda>k. (k, None)) tenure_labels)"
proof -
  have empty: "FilteredView (table_of [row0]) (Some [''Nope'']) None = []"
    by (simp add: FilteredView_def matches_def truthy_def selected_def table_of_def row0_def)
  show ?thesis
    using empty empty_view_figures [OF empty, of "[]"] by blast
qed

text \<open>
  C4, refuted as stated. With the table loaded from one CSV row and a category filter that
  matches no row, the FilteredView is empty, yet the tenure and discount figures have five
  entries and the location figure has one.
\<close>

theorem empty_view_nonempty_figures:
  "load [csv0] = Inr (table_of [row0])
   \<and> FilteredView (table_of [row0]) (Some [''Nope'']) None = []
   \<and> map_option (tenure_fig \<circ> snd) (update_graphs [table_of [row0]] (Some [''Nope'']) None)
       = Some [(''0-6'', None), (''7-12'', None), (''13-24'', None), (''25-36'', None), (''36+'', None)]
   \<and> map_option (discount_fig \<circ> snd) (update_graphs [table_of [row0]] (Some [''Nope'']) None)
       = Some [(''0-5%'', None), (''5-10%'', None), (''10-15%'', None), (''15-20%'', None), (''20%+'', None)]
   \<and> map_option (location_fig \<circ> snd) (update_graphs [table_of [row0]] (Some [''Nope'']) None)
       = Some [(''Chicago'', 0)]"
proof (intro conjI)
  show "load [csv0] = Inr (table_of [row0])"
    by (simp add: load_eval)
  show empty: "FilteredView (table_of [row0]) (Some [''Nope'']) None = []"
    by (simp add: FilteredView_def matches_def truthy_def selected_def table_of_def row0_def)
  show "map_option (tenure_fig \<circ> snd) (update_graphs [table_of [row0]] (Some [''Nope'']) None)
       = Some [(''0-6'', None), (''7-12'', None), (''13-24'', None), (''25-36'', None), (''36+'', None)]"
    unfolding fig_of_update_graphs empty by (simp add: aggregates_Nil tenure_labels_def)
  show "map_option (discount_fig \<circ> snd) (update_graphs [table_of [row0]] (Some [''Nope'']) None)
       = Some [(''0-5%'', None), (''5-10%'', None), (''10-15%'', None), (''15-20%'', None), (''20%+'', None)]"
    unfolding fig_of_update_graphs empty by (simp add: aggregates_Nil discount_labels_def)
  show "map_option (location_fig \<circ> snd) (update_graphs [table_of [row0]] (Some [''Nope'']) None)
       = Some [(''Chicago'', 0)]"
    unfolding fig_of_update_graphs empty location_fig_aggregates
    by (simp add: table_of_def sort_values_desc_def)
qed

subsection \<open>No filter and the full filter\<close>

lemma set_map_filter:
  "set (List.map_filter f xs) = {y. \<exists>x \<in> set xs. f x = Some y}"
  by (induction xs) (auto simp: List.map_filter_simps split: option.splits)

lemma FilteredView_all:
  assumes "\<forall>r \<in> set (rows table). Product_Category r \<noteq> None"
    and "set (List.map_filter Product_Category (rows table)) \<subseteq> set cs"
    and "set (map Location (rows table)) \<subseteq> set ls"
  shows "FilteredView table (Some cs) (Some ls) = rows table"
proof -
  have "matches (Some cs) (Some ls) r" if r: "r \<in> set (rows table)" for r
  proof -
    obtain c where c: "Product_Category r = Some c"
      using assms(1) r by auto
    then have "c \<in> set cs"
      using assms(2) r by (auto simp: set_map_filter)
    moreover have "Location r \<in> set ls"
      using assms(3) r by auto
    ultimately show ?thesis
      using c by (simp add: matches_def selected_def)
  qed
  then show ?thesis
    by (simp add: FilteredView_def)
qed

lemma FilteredView_none:
  "\<not> truthy c0 \<Longrightarrow> \<not> truthy l0 \<Longrightarrow> FilteredView table c0 l0 = rows table"
  by (simp add: FilteredView_def matches_def)

lemma bundle_of_update_graphs:
  "map_option snd (update_graphs (table # heap) categories locations)
     = Some (aggregates (FilteredView table categories locations) (Location_categories table))"
  using update_graphs_eq [of table heap categories locations] by auto

text \<open>
  C5, as the code has it. For a table in which no row lacks a product category, a filter
  whose categories contain every category of the table and whose locations contain every
  location of the table gives the same results as no filter (\<open>None\<close> or the empty list in
  either position), and the call returns.
\<close>

theorem full_filter_same_as_none:
  assumes "\<forall>r \<in> set (rows table). Product_Category r \<noteq> None"
    and "set (List.map_filter Product_Category (rows table)) \<subseteq> set cs"
    and "set (map Location (rows table)) \<subseteq> set ls"
    and "\<not> truthy c0" and "\<not> truthy l0"
  shows "map_option snd (update_graphs (table # heap) (Some cs) (Some ls))
           = map_option snd (update_graphs (table # heap) c0 l0)
         \<and> update_graphs (table # heap) c0 l0 \<noteq> None"
proof -
  have "FilteredView table (Some cs) (Some ls) = FilteredView table c0 l0"
    using FilteredView_all [OF assms(1-3)] FilteredView_none [OF assms(4,5)] by simp
  then have "map_option snd (update_graphs (table # heap) (Some cs) (Some ls))
      = map_option snd (update_graphs (table # heap) c0 l0)"
    by (simp only: bundle_of_update_graphs)
  moreover have "update_graphs (table # heap) c0 l0 \<noteq> None"
    using update_graphs_eq [of table heap c0 l0] by auto
  ultimately show ?thesis
    by simp
qed

theorem full_filter_same_as_none_witness:
  "map Product_Category (rows (table_of [row0])) = [Some ''A'']
   \<and> set (List.map_filter Product_Category (rows (table_of [row0]))) \<subseteq> set [''A'']
   \<and> set (map Location (rows (table_of [row0]))) \<subseteq> set [''Chicago'']
   \<and> \<not> truthy None \<and> \<not> truthy (Some [])
   \<and> map_option snd (update_graphs [table_of [row0]] (Some [''A'']) (Some [''Chicago'']))
       = map_option snd (update_graphs [table_of [row0]] None (Some []))
   \<and> update_graphs [table_of [row0]] None (Some []) \<noteq> None"
proof -
  have h1: "\<forall>r \<in> set (rows (table_of [row0])). Product_Category r \<noteq> None"
    by (simp add: table_of_def row0_def)
  have h2: "set (List.map_filter Product_Category (rows (table_of [row0]))) \<subseteq> set [''A'']"
    by (simp add: table_of_def row0_def List.map_filter_simps)
  have h3: "set (map Location (rows (table_of [row0]))) \<subseteq> set [''Chicago'']"
    by (simp add: table_of_def row0_def)
  have h4: "\<not> truthy None" and h5: "\<not> truthy (Some [])"
    by (simp_all add: truthy_def)
  have h0: "map Product_Category (rows (table_of [row0])) = [Some ''A'']"
    by (simp add: table_of_def row0_def)
  show ?thesis
    using h0 h2 h3 h4 h5 full_filter_same_as_none [OF h1 h2 h3 h4 h5, of "[]"] by blast
qed

text \<open>
  C5, refuted as stated. In the table loaded from a row of category A and a row without a
  category, A is the only category value and Chicago the only location; with no filter the
  January revenue is 20, with the filter of all categories and all locations it is 10,
  because \<^verbatim>\<open>isin\<close> is false on the missing cell.
\<close>

theorem full_filter_drops_missing_category:
  "load [csv0, csv0\<lparr>csv_Product_Category := None\<rparr>]
     = Inr (table_of [row0, row0\<lparr>Product_Category := None\<rparr>])
   \<and> List.map_filter Product_Category (rows (table_of [row0, row0\<lparr>Product_Category := None\<rparr>]))
       = [''A'']
   \<and> map Location (rows (table_of [row0, row0\<lparr>Product_Category := None\<rparr>]))
       = [''Chicago'', ''Chicago'']
   \<and> map_option (sales_trend_fig \<circ> snd)
       (update_graphs [table_of [row0, row0\<lparr>Product_Category := None\<rparr>]] None None)
       = Some [(24240, 20)]
   \<and> map_option (sales_trend_fig \<circ> snd)
       (update_graphs [table_of [row0, row0\<lparr>Product_Category := None\<rparr>]]
          (Some [''A'']) (Some [''Chicago'']))
       = Some [(24240, 10)]"
proof (intro conjI)
  let ?t = "table_of [row0, row0\<lparr>Product_Category := None\<rparr>]"
  show "load [csv0, csv0\<lparr>csv_Product_Category := None\<rparr>] = Inr ?t"
    by (simp add: load_eval)
  show "List.map_filter Product_Category (rows ?t) = [''A'']"
    by (simp add: table_of_def row0_def List.map_filter_simps)
  show "map Location (rows ?t) = [''Chicago'', ''Chicago'']"
    by (simp add: table_of_def row0_def)
  have fv_none: "FilteredView ?t None None = [row0, row0\<lparr>Product_Category := None\<rparr>]"
    by (simp add: FilteredView_def matches_def truthy_def table_of_def)
  have fv_all: "FilteredView ?t (Some [''A'']) (Some [''Chicago'']) = [row0]"
    by (simp add: FilteredView_def matches_def truthy_def selected_def table_of_def row0_def)
  show "map_option (sales_trend_fig \<circ> snd) (update_graphs [?t] None None) = Some [(24240, 20)]"
    unfolding fig_of_update_graphs fv_none sales_trend_fig_aggregates
    by (simp add: row0_def to_period_M_def jan15_def upto.simps)
  show "map_option (sales_trend_fig \<circ> snd) (update_graphs [?t] (Some [''A'']) (Some [''Chicago'']))
      = Some [(24240, 10)]"
    unfolding fig_of_update_graphs fv_all sales_trend_fig_aggregates
    by (simp add: row0_def to_period_M_def jan15_def upto.simps)
qed

end
